theory Spec2Isabelle
  imports Main "HOL-Library.Word" "HOL-Library.Signed_Division"
begin

section \<open>Scalars of the header\<close>

text \<open>
  \<open>Int_t\<close> and \<open>int\<close> are 32-bit two's complement integers. They are words read
  through \<open>sint\<close>; arithmetic wraps (the C++ standard leaves signed overflow undefined,
  the wrap is what the usual targets do, and no index of the covariance matrix comes
  near it). \<open>float_v\<close> and \<open>int_v\<close> are the SIMD lane vectors of \<open>KFParticleDef.h\<close>,
  which the header only includes: they stay type parameters \<open>'f\<close> and \<open>'i\<close>.
\<close>

type_synonym Int_t = "32 word"

text \<open>The C++ operator \<open>/\<close> on \<open>int\<close>: the quotient is truncated towards zero.\<close>

definition int_quot :: "Int_t \<Rightarrow> Int_t \<Rightarrow> Int_t" where
  "int_quot a b = word_of_int (sint a sdiv sint b)"

section \<open>The triangular index map\<close>

text \<open>
  \<^verbatim>\<open>static Int_t IJ( Int_t i, Int_t j ){ return ( j<=i ) ? i*(i+1)/2+j :j*(j+1)/2+i; }\<close>
\<close>

definition IJ :: "Int_t \<Rightarrow> Int_t \<Rightarrow> Int_t" where
  "IJ i j = (if sint j \<le> sint i then int_quot (i * (i + 1)) 2 + j
             else int_quot (j * (j + 1)) 2 + i)"

text \<open>
  The index map as the specification's data model writes it, over the mathematical
  integers: \<open>(i,j) \<rightarrow> j\<le>i ? i(i+1)/2+j : j(j+1)/2+i\<close>.
\<close>

definition IJ_spec :: "int \<Rightarrow> int \<Rightarrow> int" where
  "IJ_spec i j = (if j \<le> i then i * (i + 1) div 2 + j else j * (j + 1) div 2 + i)"

text \<open>
  A subscript of \<^verbatim>\<open>float_v fC[36]\<close> by an \<open>Int_t\<close>: the slot it reaches, \<open>None\<close> when
  the subscript is outside the array (undefined behaviour in C++).
\<close>

definition fC_slot :: "Int_t \<Rightarrow> nat option" where
  "fC_slot k = (if 0 \<le> sint k \<and> sint k < 36 then Some (nat (sint k)) else None)"

section \<open>The daughter-id container\<close>

text \<open>
  \<^verbatim>\<open>std::vector<int_v>\<close>, as far as the header uses it: the stored elements in order
  and the reserved capacity. \<open>reserve\<close> throws \<open>std::length_error\<close> when asked for more
  than \<open>max_size()\<close> and otherwise raises the capacity to the size asked for, if it
  is below it (never lowers it, never touches the elements); \<open>push_back\<close> appends
  and, when the storage is full, grows it (doubling, at least one element, as
  libstdc++ does); \<open>clear\<close> drops the elements and keeps the storage. Exhaustion of
  memory (\<open>std::bad_alloc\<close>) is outside the model.
\<close>

record 'a vector =
  elems :: "'a list"
  capacity :: nat

datatype error = length_error

text \<open>
  \<open>max_size()\<close> of a vector whose elements take \<open>sz\<close> bytes, on a 64-bit target:
  \<open>PTRDIFF_MAX / sizeof(T)\<close>. The size of \<open>int_v\<close> comes from \<open>KFParticleDef.h\<close> and
  is a parameter here.
\<close>

definition max_size :: "nat \<Rightarrow> nat" where
  "max_size sz = (2 ^ 63 - 1) div sz"

text \<open>The conversion of an \<open>int\<close> argument to the 64-bit \<open>size_t\<close> a vector expects.\<close>

definition size_t_of_int :: "Int_t \<Rightarrow> nat" where
  "size_t_of_int n = nat (sint n mod 2 ^ 64)"

text \<open>The conversion of a \<open>size_t\<close> result to \<open>int\<close>: the low 32 bits.\<close>

definition int_of_size_t :: "nat \<Rightarrow> Int_t" where
  "int_of_size_t n = word_of_nat n"

definition vec_size :: "'a vector \<Rightarrow> nat" where
  "vec_size v = length (elems v)"

definition vec_reserve :: "nat \<Rightarrow> nat \<Rightarrow> 'a vector \<Rightarrow> error + 'a vector" where
  "vec_reserve sz n v =
     (if max_size sz < n then Inl length_error
      else if capacity v < n then Inr (v\<lparr>capacity := n\<rparr>)
      else Inr v)"

definition vec_push_back :: "'a \<Rightarrow> 'a vector \<Rightarrow> 'a vector" where
  "vec_push_back x v =
     v\<lparr>elems := elems v @ [x],
       capacity := (if length (elems v) < capacity v then capacity v
                    else max 1 (2 * capacity v))\<rparr>"

definition vec_clear :: "'a vector \<Rightarrow> 'a vector" where
  "vec_clear v = v\<lparr>elems := []\<rparr>"

text \<open>\<open>operator[]\<close>: \<open>None\<close> outside the stored elements (undefined behaviour in C++).\<close>

definition vec_index :: "'a vector \<Rightarrow> nat \<Rightarrow> 'a option" where
  "vec_index v k = (if k < length (elems v) then Some (elems v ! k) else None)"

section \<open>The particle state\<close>

text \<open>The data members of \<open>KFParticleBaseSIMD\<close>, in the order of their declaration.\<close>

record ('f, 'i) KFParticleBaseSIMD =
  fP :: "'f list"
  fC :: "'f list"
  fQ :: 'f
  fNDF :: 'i
  fChi2 :: 'f
  fSFromDecay :: 'f
  fVtxGuess :: "'f list"
  fVtxErrGuess :: "'f list"
  SumDaughterMass :: 'f
  fMassHypo :: 'f
  fId :: 'i
  fAtProductionVertex :: bool
  fIsVtxGuess :: bool
  fIsVtxErrGuess :: bool
  fIsLinearized :: bool
  fPDG :: 'i
  fConstructMethod :: Int_t
  fDaughterIds :: "'i vector"

text \<open>
  The array members have the sizes of their declarations: \<open>fP[8]\<close>, \<open>fC[36]\<close>,
  \<open>fVtxGuess[3]\<close>, \<open>fVtxErrGuess[3]\<close>.
\<close>

definition array_sizes :: "('f, 'i) KFParticleBaseSIMD \<Rightarrow> bool" where
  "array_sizes p \<longleftrightarrow>
     length (fP p) = 8 \<and> length (fC p) = 36 \<and>
     length (fVtxGuess p) = 3 \<and> length (fVtxErrGuess p) = 3"

subsection \<open>Covariance accessors\<close>

text \<open>
  \<^verbatim>\<open>float_v GetCovariance( Int_t i, Int_t j ) const { return fC[IJ(i,j)]; }\<close>
\<close>

definition GetCovariance :: "('f, 'i) KFParticleBaseSIMD \<Rightarrow> Int_t \<Rightarrow> Int_t \<Rightarrow> 'f option" where
  "GetCovariance p i j = map_option (\<lambda>k. fC p ! k) (fC_slot (IJ i j))"

text \<open>
  \<^verbatim>\<open>float_v & Covariance( Int_t i, Int_t j ) { return fC[IJ(i,j)]; }\<close> and
  \<^verbatim>\<open>float_v & Cij( Int_t i, Int_t j ){ return fC[IJ(i,j)]; }\<close> return a reference into
  \<open>fC\<close>: the model returns the slot referred to, and \<open>assign_fC\<close> stores through it.
\<close>

definition Covariance :: "Int_t \<Rightarrow> Int_t \<Rightarrow> nat option" where
  "Covariance i j = fC_slot (IJ i j)"

definition Cij :: "Int_t \<Rightarrow> Int_t \<Rightarrow> nat option" where
  "Cij i j = fC_slot (IJ i j)"

definition assign_fC :: "nat \<Rightarrow> 'f \<Rightarrow> ('f, 'i) KFParticleBaseSIMD \<Rightarrow> ('f, 'i) KFParticleBaseSIMD" where
  "assign_fC k v p = p\<lparr>fC := (fC p)[k := v]\<rparr>"

subsection \<open>Daughter bookkeeping\<close>

text \<open>
  \<^verbatim>\<open>int_v Id() const { return fId; }\<close>\\
  \<^verbatim>\<open>int NDaughters() const { return fDaughterIds.size(); }\<close>\\
  \<^verbatim>\<open>int_v GetDaughterId(int iD) const { return fDaughterIds[iD]; }\<close>\\
  \<^verbatim>\<open>void SetId( int_v id ){ fId = id; }\<close>\\
  \<^verbatim>\<open>void SetNDaughters( int n ) { fDaughterIds.reserve(n); }\<close>\\
  \<^verbatim>\<open>void AddDaughterId( int_v id ){ fDaughterIds.push_back(id); }\<close>\\
  \<^verbatim>\<open>void CleanDaughtersId() { fDaughterIds.clear(); }\<close>
\<close>

definition Id :: "('f, 'i) KFParticleBaseSIMD \<Rightarrow> 'i" where
  "Id p = fId p"

definition NDaughters :: "('f, 'i) KFParticleBaseSIMD \<Rightarrow> Int_t" where
  "NDaughters p = int_of_size_t (vec_size (fDaughterIds p))"

definition GetDaughterId :: "('f, 'i) KFParticleBaseSIMD \<Rightarrow> Int_t \<Rightarrow> 'i option" where
  "GetDaughterId p iD = vec_index (fDaughterIds p) (size_t_of_int iD)"

definition SetId :: "'i \<Rightarrow> ('f, 'i) KFParticleBaseSIMD \<Rightarrow> ('f, 'i) KFParticleBaseSIMD" where
  "SetId ident p = p\<lparr>fId := ident\<rparr>"

text \<open>
  \<open>SetNDaughters\<close> returns the object after the call, or the exception that \<open>reserve\<close>
  threw; in that case the object is as it was before the call.
\<close>

definition SetNDaughters ::
  "nat \<Rightarrow> Int_t \<Rightarrow> ('f, 'i) KFParticleBaseSIMD \<Rightarrow> error + ('f, 'i) KFParticleBaseSIMD" where
  "SetNDaughters sz n p =
     (case vec_reserve sz (size_t_of_int n) (fDaughterIds p) of
        Inl e \<Rightarrow> Inl e
      | Inr v \<Rightarrow> Inr (p\<lparr>fDaughterIds := v\<rparr>))"

definition AddDaughterId :: "'i \<Rightarrow> ('f, 'i) KFParticleBaseSIMD \<Rightarrow> ('f, 'i) KFParticleBaseSIMD" where
  "AddDaughterId ident p = p\<lparr>fDaughterIds := vec_push_back ident (fDaughterIds p)\<rparr>"

definition CleanDaughtersId :: "('f, 'i) KFParticleBaseSIMD \<Rightarrow> ('f, 'i) KFParticleBaseSIMD" where
  "CleanDaughtersId p = p\<lparr>fDaughterIds := vec_clear (fDaughterIds p)\<rparr>"

section \<open>Combining daughters\<close>

text \<open>
  The header declares the combination methods; their bodies are in the implementation
  file, which is not among the sources:

  \<^verbatim>\<open>void operator +=( const KFParticleBaseSIMD &Daughter );\<close>\\
  \<^verbatim>\<open>void AddDaughter( const KFParticleBaseSIMD &Daughter, Bool_t isAtVtxGuess = 0 );\<close>

  Both take the daughter by reference to \<open>const\<close>: the body reads the daughter and
  writes the object it is called on.
\<close>

text \<open>
  Modelled from the spec: what the filter's numerics inside \<open>AddDaughter\<close> (missing from
  the sources) give the mother. Section 4.3 of the specification has them initialise
  the mother from the transported daughter or update its state, covariance, chi2 and
  ndf; section 6 keeps the identifier bookkeeping apart from them (``an opaque
  per-particle ordered list of integer ids, exposed for external decay-tree assembly
  but never interpreted internally''), and the header wants the particle's own id set
  by hand (\<open>SetId\<close>, ``should be always used (manualy)''). So the numerics yield a
  value for every data member but \<open>fId\<close> and \<open>fDaughterIds\<close>, and \<open>set_fitted\<close> stores
  these values in the mother.
\<close>

record ('f, 'i) fitted =
  new_fP :: "'f list"
  new_fC :: "'f list"
  new_fQ :: 'f
  new_fNDF :: 'i
  new_fChi2 :: 'f
  new_fSFromDecay :: 'f
  new_fVtxGuess :: "'f list"
  new_fVtxErrGuess :: "'f list"
  new_SumDaughterMass :: 'f
  new_fMassHypo :: 'f
  new_fAtProductionVertex :: bool
  new_fIsVtxGuess :: bool
  new_fIsVtxErrGuess :: bool
  new_fIsLinearized :: bool
  new_fPDG :: 'i
  new_fConstructMethod :: Int_t

definition set_fitted ::
  "('f, 'i) fitted \<Rightarrow> ('f, 'i) KFParticleBaseSIMD \<Rightarrow> ('f, 'i) KFParticleBaseSIMD" where
  "set_fitted r p =
     \<lparr>fP = new_fP r, fC = new_fC r, fQ = new_fQ r, fNDF = new_fNDF r, fChi2 = new_fChi2 r,
      fSFromDecay = new_fSFromDecay r, fVtxGuess = new_fVtxGuess r,
      fVtxErrGuess = new_fVtxErrGuess r, SumDaughterMass = new_SumDaughterMass r,
      fMassHypo = new_fMassHypo r, fId = fId p,
      fAtProductionVertex = new_fAtProductionVertex r, fIsVtxGuess = new_fIsVtxGuess r,
      fIsVtxErrGuess = new_fIsVtxErrGuess r, fIsLinearized = new_fIsLinearized r,
      fPDG = new_fPDG r, fConstructMethod = new_fConstructMethod r,
      fDaughterIds = fDaughterIds p\<rparr>"

text \<open>
  The numerics themselves (transport of the daughter, gain, update, in the energy mode
  that \<open>fConstructMethod\<close> selects) are a parameter of the model: a function from the
  \<open>isAtVtxGuess\<close> flag, the mother and the daughter to the fitted values.
\<close>

type_synonym ('f, 'i) fit =
  "bool \<Rightarrow> ('f, 'i) KFParticleBaseSIMD \<Rightarrow> ('f, 'i) KFParticleBaseSIMD \<Rightarrow> ('f, 'i) fitted"

text \<open>
  Modelled from the spec: the body of \<open>AddDaughter\<close> is missing from the sources.
  Section 4.3 of the specification gives it three steps: (1) an empty mother is
  initialised from the transported daughter, (2) otherwise the daughter is merged by a
  linear Kalman update, (3) ``append the daughter's id to the mother's daughter-id
  list. The daughter object itself is never mutated.'' Steps 1 and 2 are the parameter
  \<open>fit\<close>, whose values \<open>set_fitted\<close> stores in the mother; step 3 is \<open>AddDaughterId\<close>
  on the daughter's \<open>Id\<close>.
\<close>

definition AddDaughter ::
  "('f, 'i) fit \<Rightarrow> ('f, 'i) KFParticleBaseSIMD \<Rightarrow> bool \<Rightarrow> ('f, 'i) KFParticleBaseSIMD
     \<Rightarrow> ('f, 'i) KFParticleBaseSIMD" where
  "AddDaughter fit Daughter isAtVtxGuess p =
     AddDaughterId (Id Daughter) (set_fitted (fit isAtVtxGuess p Daughter) p)"

text \<open>
  Modelled from the spec: the body of \<open>operator +=\<close> is missing from the sources.
  Section 4.3 of the specification: ``\<open>+=\<close> is sugar for \<open>AddDaughter\<close> with default
  mode'', that is the call \<open>AddDaughter( Daughter )\<close>, in which \<open>isAtVtxGuess\<close> takes the
  default \<open>0\<close> of the declaration.
\<close>

definition operator_plus_assign ::
  "('f, 'i) fit \<Rightarrow> ('f, 'i) KFParticleBaseSIMD \<Rightarrow> ('f, 'i) KFParticleBaseSIMD
     \<Rightarrow> ('f, 'i) KFParticleBaseSIMD" where
  "operator_plus_assign fit Daughter p = AddDaughter fit Daughter False p"

text \<open>
  With objects at addresses, a call replaces the object at \<open>this\<close> and reads the one
  at \<open>daughter\<close>, which the reference to \<open>const\<close> of the declarations does not let it
  write; the two addresses may be the same.
\<close>

type_synonym ('f, 'i) objects = "nat \<Rightarrow> ('f, 'i) KFParticleBaseSIMD"

definition call_AddDaughter ::
  "('f, 'i) fit \<Rightarrow> nat \<Rightarrow> nat \<Rightarrow> bool \<Rightarrow> ('f, 'i) objects \<Rightarrow> ('f, 'i) objects" where
  "call_AddDaughter fit this daughter isAtVtxGuess h =
     h(this := AddDaughter fit (h daughter) isAtVtxGuess (h this))"

definition call_operator_plus_assign ::
  "('f, 'i) fit \<Rightarrow> nat \<Rightarrow> nat \<Rightarrow> ('f, 'i) objects \<Rightarrow> ('f, 'i) objects" where
  "call_operator_plus_assign fit this daughter h =
     h(this := operator_plus_assign fit (h daughter) (h this))"

section \<open>Iterative solvers\<close>

text \<open>
  Modelled from the spec: the bodies of \<open>GetDStoPointCBM\<close>, \<open>GetDStoParticleCBM\<close> and
  \<open>SetNonlinearMassConstraint\<close> are missing from the sources. Section 7 of the
  specification: ``Iterative solvers (closest-approach Newton search, nonlinear mass
  constraint) cap their iteration count and return the last iterate on
  non-convergence''. The loop below runs \<open>step\<close> from the iterate \<open>x\<close> while fewer than
  \<open>cap\<close> steps are done and \<open>stop\<close> (convergence, or the divergence guard) does not
  hold, and returns the iterate it ends on. It is a partial function: a loop that
  did not end would have the value \<open>None\<close>.
\<close>

partial_function (option) capped_iteration ::
  "nat \<Rightarrow> ('s \<Rightarrow> bool) \<Rightarrow> ('s \<Rightarrow> 's) \<Rightarrow> nat \<Rightarrow> 's \<Rightarrow> 's option" where
  "capped_iteration cap stop step k x =
     (if k < cap \<and> \<not> stop x then capped_iteration cap stop step (Suc k) (step x) else Some x)"

text \<open>
  Modelled from the spec: section 4.2, ``path length to the point of closest approach
  of a trajectory to a fixed 3-D point [...] bounded Newton iteration (capped, e.g.,
  at 100 steps, with divergence guard)''. The cap, the stopping test, the Newton step
  and the seed (which read the particle, the point and the injected field) are
  parameters.
\<close>

definition GetDStoPointCBM ::
  "nat \<Rightarrow> (('f, 'i) KFParticleBaseSIMD \<Rightarrow> 'f list \<Rightarrow> 'f \<Rightarrow> bool)
     \<Rightarrow> (('f, 'i) KFParticleBaseSIMD \<Rightarrow> 'f list \<Rightarrow> 'f \<Rightarrow> 'f)
     \<Rightarrow> (('f, 'i) KFParticleBaseSIMD \<Rightarrow> 'f list \<Rightarrow> 'f)
     \<Rightarrow> ('f, 'i) KFParticleBaseSIMD \<Rightarrow> 'f list \<Rightarrow> 'f option" where
  "GetDStoPointCBM cap stop newton seed this xyz =
     capped_iteration cap (stop this xyz) (newton this xyz) 0 (seed this xyz)"

text \<open>
  Modelled from the spec: section 4.2, ``simultaneous path lengths (dS, dS') minimizing
  squared spatial separation between two trajectories, solved by Newton updates on the
  2-D system''; the iterate is the pair \<open>(dS, dS')\<close>.
\<close>

definition GetDStoParticleCBM ::
  "nat \<Rightarrow> (('f, 'i) KFParticleBaseSIMD \<Rightarrow> ('f, 'i) KFParticleBaseSIMD \<Rightarrow> 'f \<times> 'f \<Rightarrow> bool)
     \<Rightarrow> (('f, 'i) KFParticleBaseSIMD \<Rightarrow> ('f, 'i) KFParticleBaseSIMD \<Rightarrow> 'f \<times> 'f \<Rightarrow> 'f \<times> 'f)
     \<Rightarrow> (('f, 'i) KFParticleBaseSIMD \<Rightarrow> ('f, 'i) KFParticleBaseSIMD \<Rightarrow> 'f \<times> 'f)
     \<Rightarrow> ('f, 'i) KFParticleBaseSIMD \<Rightarrow> ('f, 'i) KFParticleBaseSIMD \<Rightarrow> ('f \<times> 'f) option" where
  "GetDStoParticleCBM cap stop newton seed this p =
     capped_iteration cap (stop this p) (newton this p) 0 (seed this p)"

text \<open>
  Modelled from the spec: section 4.4, ``repeats the linear step for a fixed small
  number of iterations, recomputing the Jacobian at the updated state each time'', and
  section 7, which counts it among the solvers that return the last iterate on
  non-convergence. The number of iterations, the convergence test and the linear step
  are parameters; a test that never holds gives the fixed number of steps.
\<close>

definition SetNonlinearMassConstraint ::
  "nat \<Rightarrow> ('f \<Rightarrow> ('f, 'i) KFParticleBaseSIMD \<Rightarrow> bool)
     \<Rightarrow> ('f \<Rightarrow> ('f, 'i) KFParticleBaseSIMD \<Rightarrow> ('f, 'i) KFParticleBaseSIMD)
     \<Rightarrow> 'f \<Rightarrow> ('f, 'i) KFParticleBaseSIMD \<Rightarrow> ('f, 'i) KFParticleBaseSIMD option" where
  "SetNonlinearMassConstraint n converged linear_step Mass this =
     capped_iteration n (converged Mass) (linear_step Mass) 0 this"

section \<open>Sample values\<close>

text \<open>
  A particle for evaluating the model: the covariance entry of row \<open>i\<close> and column
  \<open>j \<le> i\<close> is \<open>10 i + j\<close>.
\<close>

definition sample :: "(int, int) KFParticleBaseSIMD" where
  "sample = \<lparr>fP = [1, 2, 3, 4, 5, 6, 7, 8], fC = [0,
       10, 11,
       20, 21, 22,
       30, 31, 32, 33,
       40, 41, 42, 43, 44,
       50, 51, 52, 53, 54, 55,
       60, 61, 62, 63, 64, 65, 66,
       70, 71, 72, 73, 74, 75, 76, 77], fQ = 1, fNDF = 2,
     fChi2 = 0, fSFromDecay = 0, fVtxGuess = [0, 0, 0], fVtxErrGuess = [1, 1, 1],
     SumDaughterMass = 0, fMassHypo = 0, fId = 42, fAtProductionVertex = False,
     fIsVtxGuess = False, fIsVtxErrGuess = False, fIsLinearized = False, fPDG = 211,
     fConstructMethod = 0, fDaughterIds = \<lparr>elems = [7, 9], capacity = 2\<rparr>\<rparr>"



text \<open>
  Stand-ins for the solvers' numerics: the step halves the path length, starting from
  40, and the search stops at 0; the linear step of the mass constraint adds 1 to chi2
  and to ndf, and counts as converged when chi2 is 5.
\<close>

definition sample_newton :: "(int, int) KFParticleBaseSIMD \<Rightarrow> int list \<Rightarrow> int \<Rightarrow> int" where
  "sample_newton this xyz dS = dS div 2"

definition sample_stop :: "(int, int) KFParticleBaseSIMD \<Rightarrow> int list \<Rightarrow> int \<Rightarrow> bool" where
  "sample_stop this xyz dS \<longleftrightarrow> dS = 0"

definition sample_seed :: "(int, int) KFParticleBaseSIMD \<Rightarrow> int list \<Rightarrow> int" where
  "sample_seed this xyz = 40"

definition sample_newton2 ::
  "(int, int) KFParticleBaseSIMD \<Rightarrow> (int, int) KFParticleBaseSIMD \<Rightarrow> int \<times> int \<Rightarrow> int \<times> int" where
  "sample_newton2 this p dd = (fst dd div 2, snd dd + 1)"

definition sample_stop2 ::
  "(int, int) KFParticleBaseSIMD \<Rightarrow> (int, int) KFParticleBaseSIMD \<Rightarrow> int \<times> int \<Rightarrow> bool" where
  "sample_stop2 this p dd \<longleftrightarrow> fst dd = 0"

definition sample_seed2 ::
  "(int, int) KFParticleBaseSIMD \<Rightarrow> (int, int) KFParticleBaseSIMD \<Rightarrow> int \<times> int" where
  "sample_seed2 this p = (40, 0)"

definition sample_converged :: "int \<Rightarrow> (int, int) KFParticleBaseSIMD \<Rightarrow> bool" where
  "sample_converged Mass p \<longleftrightarrow> fChi2 p = 5"

definition sample_linear_step ::
  "int \<Rightarrow> (int, int) KFParticleBaseSIMD \<Rightarrow> (int, int) KFParticleBaseSIMD" where
  "sample_linear_step Mass p = p\<lparr>fChi2 := fChi2 p + 1, fNDF := fNDF p + 1\<rparr>"

section \<open>Facts about the index map\<close>

lemma small_index_cases:
  fixes i :: Int_t
  assumes "0 \<le> sint i" and "sint i \<le> 7"
  shows "i = 0 \<or> i = 1 \<or> i = 2 \<or> i = 3 \<or> i = 4 \<or> i = 5 \<or> i = 6 \<or> i = 7"
proof -
  from assms have "sint i = 0 \<or> sint i = 1 \<or> sint i = 2 \<or> sint i = 3 \<or> sint i = 4
      \<or> sint i = 5 \<or> sint i = 6 \<or> sint i = 7" by arith
  then have "word_of_int (sint i) = (0::Int_t) \<or> word_of_int (sint i) = (1::Int_t)
      \<or> word_of_int (sint i) = (2::Int_t) \<or> word_of_int (sint i) = (3::Int_t)
      \<or> word_of_int (sint i) = (4::Int_t) \<or> word_of_int (sint i) = (5::Int_t)
      \<or> word_of_int (sint i) = (6::Int_t) \<or> word_of_int (sint i) = (7::Int_t)"
    by (elim disjE) simp_all
  then show ?thesis by simp
qed

lemma IJ_commute: "IJ i j = IJ j i"
proof (cases "sint i = sint j")
  case True
  then have "i = j" by (rule signed_word_eqI)
  then show ?thesis by simp
next
  case False
  then show ?thesis by (simp add: IJ_def)
qed

text \<open>Row by row, the machine index is the specification's index and lies in \<open>0..35\<close>.\<close>

lemma IJ_rows:
  fixes j :: Int_t
  assumes "j = 0 \<or> j = 1 \<or> j = 2 \<or> j = 3 \<or> j = 4 \<or> j = 5 \<or> j = 6 \<or> j = 7"
  shows "sint (IJ 0 j) = IJ_spec 0 (sint j) \<and> 0 \<le> sint (IJ 0 j) \<and> sint (IJ 0 j) \<le> 35"
    and "sint (IJ 1 j) = IJ_spec 1 (sint j) \<and> 0 \<le> sint (IJ 1 j) \<and> sint (IJ 1 j) \<le> 35"
    and "sint (IJ 2 j) = IJ_spec 2 (sint j) \<and> 0 \<le> sint (IJ 2 j) \<and> sint (IJ 2 j) \<le> 35"
    and "sint (IJ 3 j) = IJ_spec 3 (sint j) \<and> 0 \<le> sint (IJ 3 j) \<and> sint (IJ 3 j) \<le> 35"
    and "sint (IJ 4 j) = IJ_spec 4 (sint j) \<and> 0 \<le> sint (IJ 4 j) \<and> sint (IJ 4 j) \<le> 35"
    and "sint (IJ 5 j) = IJ_spec 5 (sint j) \<and> 0 \<le> sint (IJ 5 j) \<and> sint (IJ 5 j) \<le> 35"
    and "sint (IJ 6 j) = IJ_spec 6 (sint j) \<and> 0 \<le> sint (IJ 6 j) \<and> sint (IJ 6 j) \<le> 35"
    and "sint (IJ 7 j) = IJ_spec 7 (sint j) \<and> 0 \<le> sint (IJ 7 j) \<and> sint (IJ 7 j) \<le> 35"
  using assms
  by (elim disjE; simp add: IJ_def IJ_spec_def int_quot_def signed_divide_int_def)+

lemma IJ_small:
  assumes "0 \<le> sint i" and "sint i \<le> 7" and "0 \<le> sint j" and "sint j \<le> 7"
  shows "sint (IJ i j) = IJ_spec (sint i) (sint j) \<and> 0 \<le> sint (IJ i j) \<and> sint (IJ i j) \<le> 35"
proof -
  have cj: "j = 0 \<or> j = 1 \<or> j = 2 \<or> j = 3 \<or> j = 4 \<or> j = 5 \<or> j = 6 \<or> j = 7"
    using assms(3,4) by (rule small_index_cases)
  have "i = 0 \<or> i = 1 \<or> i = 2 \<or> i = 3 \<or> i = 4 \<or> i = 5 \<or> i = 6 \<or> i = 7"
    using assms(1,2) by (rule small_index_cases)
  then show ?thesis
    using IJ_rows [OF cj] by (elim disjE) simp_all
qed

lemma fC_slot_small:
  assumes "0 \<le> sint k" and "sint k \<le> 35"
  shows "fC_slot k = Some (nat (sint k))" and "nat (sint k) < 36"
  using assms by (simp_all add: fC_slot_def)

section \<open>Facts about the daughter-id container\<close>

lemma vec_push_back_size: "vec_size (vec_push_back x v) = Suc (vec_size v)"
  by (simp add: vec_size_def vec_push_back_def)

lemma AddDaughterId_NDaughters: "NDaughters (AddDaughterId x p) = NDaughters p + 1"
  by (simp add: NDaughters_def AddDaughterId_def vec_push_back_size int_of_size_t_def)

lemma size_t_of_int_nonneg: "0 \<le> sint n \<Longrightarrow> size_t_of_int n = nat (sint n)"
proof -
  assume a: "0 \<le> sint n"
  have "sint n < 2 ^ (LENGTH(32) - 1)" by (rule sint_lt)
  then have "sint n < 2 ^ 64" by simp
  with a show ?thesis by (simp add: size_t_of_int_def)
qed

lemma size_t_of_int_neg: "sint n < 0 \<Longrightarrow> size_t_of_int n = nat (2 ^ 64 + sint n)"
proof -
  assume a: "sint n < 0"
  have "- (2 ^ (LENGTH(32) - 1)) \<le> sint n" by (rule sint_ge)
  then have b: "- (2 ^ 64) \<le> sint n" by simp
  have "sint n mod 2 ^ 64 = (sint n + 2 ^ 64) mod 2 ^ 64" by simp
  also have "\<dots> = sint n + 2 ^ 64" using a b by (intro mod_pos_pos_trivial) simp_all
  finally show ?thesis by (simp add: size_t_of_int_def add.commute)
qed


lemma vec_reserve_elems: "vec_reserve sz n v = Inr v' \<Longrightarrow> elems v' = elems v"
  by (auto simp: vec_reserve_def split: if_splits)

lemma vec_reserve_capacity:
  "vec_reserve sz n v = Inr v' \<Longrightarrow> v' = v\<lparr>capacity := max (capacity v) n\<rparr>"
  by (auto simp: vec_reserve_def max_def split: if_splits)

lemma vec_reserve_total:
  "vec_reserve sz n v = Inl length_error \<and> max_size sz < n
   \<or> (\<exists>v'. vec_reserve sz n v = Inr v' \<and> n \<le> max_size sz)"
  by (auto simp: vec_reserve_def)

lemma SetNDaughters_throws_iff:
  assumes "0 < sz" and "sz \<le> 2 ^ 32"
  shows "SetNDaughters sz n p = Inl length_error \<longleftrightarrow> sint n < 0"
proof (cases "sint n < 0")
  case True
  have "- (2 ^ (LENGTH(32) - 1)) \<le> sint n" by (rule sint_ge)
  then have "(2::int) ^ 63 \<le> 2 ^ 64 + sint n" by simp
  then have "nat (2 ^ 63) \<le> nat (2 ^ 64 + sint n)" by (rule nat_mono)
  then have "(2::nat) ^ 63 \<le> nat (2 ^ 64 + sint n)" by (simp add: nat_power_eq)
  moreover have "max_size sz \<le> 2 ^ 63 - 1"
    by (simp add: max_size_def)
  ultimately have "max_size sz < size_t_of_int n"
    using True by (simp add: size_t_of_int_neg)
  then show ?thesis using True by (simp add: SetNDaughters_def vec_reserve_def)
next
  case False
  then have nn: "0 \<le> sint n" by simp
  have "sint n < 2 ^ (LENGTH(32) - 1)" by (rule sint_lt)
  then have "nat (sint n) \<le> 2 ^ 31 - 1" using nn by simp
  then have "nat (sint n) * sz \<le> (2 ^ 31 - 1) * 2 ^ 32"
    using assms(2) by (intro mult_mono) simp_all
  then have "nat (sint n) * sz \<le> 2 ^ 63 - 1" by simp
  then have "nat (sint n) \<le> max_size sz"
    using assms(1) by (simp add: max_size_def less_eq_div_iff_mult_less_eq)
  then show ?thesis
    using False nn by (simp add: SetNDaughters_def vec_reserve_def size_t_of_int_nonneg)
qed


lemma set_fitted_ids:
  "fDaughterIds (set_fitted r p) = fDaughterIds p" and "fId (set_fitted r p) = fId p"
  by (simp_all add: set_fitted_def)

lemma AddDaughter_ids:
  "fDaughterIds (AddDaughter fit Daughter isAtVtxGuess p)
     = vec_push_back (Id Daughter) (fDaughterIds p)"
  by (simp add: AddDaughter_def AddDaughterId_def set_fitted_ids)

text \<open>
  The daughter has to be another object than the mother: a particle added to itself
  is not the same after the call.
\<close>

lemma call_AddDaughter_self: "call_AddDaughter fit a a isAtVtxGuess h a \<noteq> h a"
proof
  assume "call_AddDaughter fit a a isAtVtxGuess h a = h a"
  then have "fDaughterIds (AddDaughter fit (h a) isAtVtxGuess (h a)) = fDaughterIds (h a)"
    by (simp add: call_AddDaughter_def)
  then have "elems (vec_push_back (Id (h a)) (fDaughterIds (h a))) = elems (fDaughterIds (h a))"
    by (simp add: AddDaughter_ids)
  then show False by (simp add: vec_push_back_def)
qed

section \<open>Facts about the capped iteration\<close>

lemma capped_iteration_returns:
  "\<exists>m\<le>cap - k. capped_iteration cap stop step k x = Some ((step ^^ m) x)
      \<and> (m < cap - k \<longrightarrow> stop ((step ^^ m) x))
      \<and> (\<forall>i<m. \<not> stop ((step ^^ i) x))"
proof (induction "cap - k" arbitrary: k x)
  case 0
  then have "capped_iteration cap stop step k x = Some x"
    by (subst capped_iteration.simps) simp
  with 0 show ?case by (intro exI [of _ 0]) simp
next
  case (Suc n)
  show ?case
  proof (cases "stop x")
    case True
    then have "capped_iteration cap stop step k x = Some x"
      by (subst capped_iteration.simps) simp
    with True Suc.hyps show ?thesis by (intro exI [of _ 0]) simp
  next
    case False
    from Suc.hyps have k: "k < cap" and n: "n = cap - Suc k" by simp_all
    from Suc.hyps(1) [OF n, of "step x"] obtain m where
      m: "m \<le> cap - Suc k"
        "capped_iteration cap stop step (Suc k) (step x) = Some ((step ^^ m) (step x))"
        "m < cap - Suc k \<longrightarrow> stop ((step ^^ m) (step x))"
        "\<forall>i<m. \<not> stop ((step ^^ i) (step x))"
      by blast
    have unfold: "capped_iteration cap stop step k x = capped_iteration cap stop step (Suc k) (step x)"
      using k False by (subst capped_iteration.simps) simp
    have "\<forall>i<Suc m. \<not> stop ((step ^^ i) x)"
    proof (intro allI impI)
      fix i assume "i < Suc m"
      then show "\<not> stop ((step ^^ i) x)"
        using False m(4) by (cases i) (simp_all add: funpow_swap1)
    qed
    with m k unfold show ?thesis
      by (intro exI [of _ "Suc m"]) (simp add: funpow_swap1)
  qed
qed

lemma capped_iteration_from_0:
  "\<exists>m\<le>cap. capped_iteration cap stop step 0 x = Some ((step ^^ m) x)
      \<and> (m < cap \<longrightarrow> stop ((step ^^ m) x))
      \<and> (\<forall>i<m. \<not> stop ((step ^^ i) x))"
  using capped_iteration_returns [of cap 0 stop step x] by simp

lemma capped_iteration_exhausted:
  assumes "\<forall>i<cap. \<not> stop ((step ^^ i) x)"
  shows "capped_iteration cap stop step 0 x = Some ((step ^^ cap) x)"
proof -
  from capped_iteration_from_0 [of cap stop step x] obtain m where
    m: "m \<le> cap" "capped_iteration cap stop step 0 x = Some ((step ^^ m) x)"
      "m < cap \<longrightarrow> stop ((step ^^ m) x)"
    by blast
  from m(3) assms have "\<not> m < cap" by blast
  with m(1) have "m = cap" by simp
  with m(2) show ?thesis by simp
qed

section \<open>Symmetry of the covariance storage\<close>

text \<open>
  Claim C4. The covariance matrix is symmetric in every state of the particle, by
  construction of the triangular storage: for all indices \<open>0 \<le> i, j \<le> 7\<close>,
  \<open>GetCovariance(i,j)\<close> equals \<open>GetCovariance(j,i)\<close>, because both read
  \<open>fC[IJ(i,j)]\<close>, where \<open>IJ(i,j)\<close> is the specification's index
  \<open>j \<le> i ? i(i+1)/2+j : j(j+1)/2+i\<close> and \<open>IJ(i,j) = IJ(j,i)\<close>. Both reads are inside
  the array, and a value stored through \<open>Covariance(i,j)\<close> is the value read back by
  \<open>GetCovariance(j,i)\<close>.
\<close>

theorem GetCovariance_symmetric:
  assumes "0 \<le> sint i" and "sint i \<le> 7" and "0 \<le> sint j" and "sint j \<le> 7"
  shows "IJ i j = IJ j i
       \<and> sint (IJ i j) = IJ_spec (sint i) (sint j)
       \<and> GetCovariance p i j = GetCovariance p j i
       \<and> (\<exists>k<36. GetCovariance p i j = Some (fC p ! k) \<and> GetCovariance p j i = Some (fC p ! k))
       \<and> (array_sizes p \<longrightarrow>
            (\<exists>k. Covariance i j = Some k \<and> GetCovariance (assign_fC k v p) j i = Some v))"
proof -
  let ?k = "nat (sint (IJ i j))"
  have b: "0 \<le> sint (IJ i j)" "sint (IJ i j) \<le> 35"
    and s: "sint (IJ i j) = IJ_spec (sint i) (sint j)"
    using IJ_small [OF assms] by simp_all
  have slot: "fC_slot (IJ i j) = Some ?k" and k: "?k < 36"
    using fC_slot_small [OF b] by simp_all
  have c: "IJ j i = IJ i j" by (rule IJ_commute)
  have g: "GetCovariance p i j = Some (fC p ! ?k)" "GetCovariance p j i = Some (fC p ! ?k)"
    by (simp_all add: GetCovariance_def c slot)
  have w: "GetCovariance (assign_fC ?k v p) j i = Some v" if "array_sizes p"
    using that k by (simp add: GetCovariance_def c slot assign_fC_def array_sizes_def)
  show ?thesis
    using c s g k w by (auto simp: Covariance_def slot)
qed

text \<open>The indices \<open>(2,5)\<close> and \<open>(5,2)\<close> on the sample particle: slot 17, entry 52.\<close>

theorem GetCovariance_symmetric_witness:
  "0 \<le> sint (2::Int_t) \<and> sint (2::Int_t) \<le> 7 \<and> 0 \<le> sint (5::Int_t) \<and> sint (5::Int_t) \<le> 7
   \<and> array_sizes sample
   \<and> GetCovariance sample 2 5 = GetCovariance sample 5 2
   \<and> sint (IJ 2 5) = 17
   \<and> GetCovariance sample 2 5 = Some 52
   \<and> (\<exists>k. Covariance 2 5 = Some k \<and> GetCovariance (assign_fC k (- 4) sample) 5 2 = Some (- 4))"
proof -
  have h: "0 \<le> sint (2::Int_t)" "sint (2::Int_t) \<le> 7" "0 \<le> sint (5::Int_t)" "sint (5::Int_t) \<le> 7"
    by simp_all
  have a: "array_sizes sample" by (simp add: array_sizes_def sample_def)
  have ij: "IJ 2 5 = 17"
    by (simp add: IJ_def int_quot_def signed_divide_int_def)
  have v: "GetCovariance sample 2 5 = Some 52"
    by (simp add: GetCovariance_def ij fC_slot_def sample_def)
  have t: "GetCovariance sample 2 5 = GetCovariance sample 5 2"
    "\<exists>k. Covariance 2 5 = Some k \<and> GetCovariance (assign_fC k (- 4) sample) 5 2 = Some (- 4)"
    using GetCovariance_symmetric [OF h, of sample "- 4"] a by blast+
  from h a t v ij show ?thesis by simp
qed

section \<open>Covariance accesses stay inside the array\<close>

text \<open>
  Claim C9. For all indices \<open>0 \<le> i, j \<le> 7\<close> the triangular index \<open>IJ(i,j)\<close> lies in
  \<open>0..35\<close>, so every access through \<open>GetCovariance(i,j)\<close>, \<open>Covariance(i,j)\<close> or
  \<open>Cij(i,j)\<close> stays within the 36 entries of \<open>fC\<close>.
\<close>

theorem IJ_within_fC:
  assumes "0 \<le> sint i" and "sint i \<le> 7" and "0 \<le> sint j" and "sint j \<le> 7"
  shows "0 \<le> sint (IJ i j) \<and> sint (IJ i j) \<le> 35
       \<and> (\<exists>k. Covariance i j = Some k \<and> Cij i j = Some k
              \<and> GetCovariance p i j = Some (fC p ! k)
              \<and> k < 36 \<and> (array_sizes p \<longrightarrow> k < length (fC p)))"
proof -
  have b: "0 \<le> sint (IJ i j)" "sint (IJ i j) \<le> 35"
    using IJ_small [OF assms] by simp_all
  from fC_slot_small [OF b] show ?thesis
    using b by (simp add: Covariance_def Cij_def GetCovariance_def array_sizes_def)
qed

text \<open>The last row: \<open>IJ(7,6) = 34\<close>.\<close>

theorem IJ_within_fC_witness:
  "0 \<le> sint (7::Int_t) \<and> sint (7::Int_t) \<le> 7 \<and> 0 \<le> sint (6::Int_t) \<and> sint (6::Int_t) \<le> 7
   \<and> sint (IJ 7 6) = 34 \<and> Covariance 7 6 = Some 34 \<and> Cij 7 6 = Some 34
   \<and> GetCovariance sample 7 6 = Some 76"
proof -
  have h: "0 \<le> sint (7::Int_t)" "sint (7::Int_t) \<le> 7" "0 \<le> sint (6::Int_t)" "sint (6::Int_t) \<le> 7"
    by simp_all
  have ij: "IJ 7 6 = 34"
    by (simp add: IJ_def int_quot_def signed_divide_int_def)
  have sl: "fC_slot 34 = Some 34" by (simp add: fC_slot_def)
  have "fC sample ! 34 = 76" by (simp add: sample_def)
  then show ?thesis
    using h IJ_within_fC [OF h, of sample]
    by (simp add: ij Covariance_def Cij_def sl)
qed

section \<open>Reserving storage for daughter ids\<close>

text \<open>
  Claim C10. For every \<open>n\<close>, \<open>SetNDaughters(n)\<close> only reserves storage capacity and does
  not change the observable daughter list: \<open>NDaughters()\<close> and every stored daughter
  id are the same before and after the call; it is not a setter of the daughter count.
  Either the call returns, and the object differs from the one before at most in the
  capacity of \<open>fDaughterIds\<close>, or \<open>reserve\<close> throws \<open>length_error\<close> (the request
  exceeds \<open>max_size()\<close>) and the object is not changed at all.
\<close>

theorem SetNDaughters_only_reserves:
  "(\<exists>p'. SetNDaughters sz n p = Inr p'
        \<and> NDaughters p' = NDaughters p
        \<and> elems (fDaughterIds p') = elems (fDaughterIds p)
        \<and> (\<forall>iD. GetDaughterId p' iD = GetDaughterId p iD)
        \<and> p' = p\<lparr>fDaughterIds :=
                  (fDaughterIds p)\<lparr>capacity := max (capacity (fDaughterIds p)) (size_t_of_int n)\<rparr>\<rparr>)
   \<or> (SetNDaughters sz n p = Inl length_error \<and> max_size sz < size_t_of_int n)"
proof -
  let ?v = "fDaughterIds p" and ?n = "size_t_of_int n"
  from vec_reserve_total [of sz ?n ?v] show ?thesis
  proof
    assume "vec_reserve sz ?n ?v = Inl length_error \<and> max_size sz < ?n"
    then show ?thesis by (simp add: SetNDaughters_def)
  next
    assume "\<exists>v'. vec_reserve sz ?n ?v = Inr v' \<and> ?n \<le> max_size sz"
    then obtain v' where r: "vec_reserve sz ?n ?v = Inr v'" by blast
    have e: "elems v' = elems ?v" using r by (rule vec_reserve_elems)
    have c: "v' = ?v\<lparr>capacity := max (capacity ?v) ?n\<rparr>" using r by (rule vec_reserve_capacity)
    have s: "SetNDaughters sz n p = Inr (p\<lparr>fDaughterIds := v'\<rparr>)"
      using r by (simp add: SetNDaughters_def)
    have "NDaughters (p\<lparr>fDaughterIds := v'\<rparr>) = NDaughters p"
      by (simp add: NDaughters_def vec_size_def e)
    moreover have "\<forall>iD. GetDaughterId (p\<lparr>fDaughterIds := v'\<rparr>) iD = GetDaughterId p iD"
      by (simp add: GetDaughterId_def vec_index_def e)
    ultimately show ?thesis using s e c by simp
  qed
qed

text \<open>
  On the sample particle, which has two daughter ids: reserving 10 leaves the count at
  2, and a negative argument, converted to \<open>size_t\<close>, makes \<open>reserve\<close> throw.
\<close>

theorem SetNDaughters_only_reserves_witness:
  "SetNDaughters 16 10 sample = Inr (sample\<lparr>fDaughterIds := \<lparr>elems = [7, 9], capacity = 10\<rparr>\<rparr>)
   \<and> NDaughters sample = 2
   \<and> NDaughters (sample\<lparr>fDaughterIds := \<lparr>elems = [7, 9], capacity = 10\<rparr>\<rparr>) = 2
   \<and> SetNDaughters 16 (- 1) sample = Inl length_error"
proof -
  have n: "size_t_of_int 10 = 10" by (simp add: size_t_of_int_def)
  have m: "\<not> max_size 16 < 10" by (simp add: max_size_def)
  have v: "fDaughterIds sample = \<lparr>elems = [7, 9], capacity = 2\<rparr>" by (simp add: sample_def)
  from SetNDaughters_only_reserves [of 16 10 sample]
  have "SetNDaughters 16 10 sample = Inr (sample\<lparr>fDaughterIds := \<lparr>elems = [7, 9], capacity = 10\<rparr>\<rparr>)"
    using m by (auto simp: n v)
  moreover have "NDaughters sample = 2"
    by (simp add: NDaughters_def vec_size_def int_of_size_t_def v)
  moreover have "NDaughters (sample\<lparr>fDaughterIds := \<lparr>elems = [7, 9], capacity = 10\<rparr>\<rparr>) = 2"
    by (simp add: NDaughters_def vec_size_def int_of_size_t_def)
  moreover have "SetNDaughters 16 (- 1) sample = Inl length_error"
    by (simp add: SetNDaughters_throws_iff)
  ultimately show ?thesis by simp
qed

section \<open>Adding a daughter\<close>



text \<open>
  Claim C6. For every mother and daughter, \<open>mother += d\<close> has exactly the effect of
  \<open>mother.AddDaughter(d)\<close> with the default argument, on the mother and on every
  other object.
\<close>

theorem operator_plus_assign_is_AddDaughter:
  "operator_plus_assign fit Daughter p = AddDaughter fit Daughter False p
   \<and> call_operator_plus_assign fit this daughter h = call_AddDaughter fit this daughter False h"
  by (simp add: operator_plus_assign_def call_operator_plus_assign_def call_AddDaughter_def)

section \<open>Termination of the iterative solvers\<close>

text \<open>
  Claim C8. The iterative solvers (the closest-approach Newton searches of
  \<open>GetDStoPointCBM\<close> and \<open>GetDStoParticleCBM\<close>, and \<open>SetNonlinearMassConstraint\<close>)
  terminate on every input: each returns a result after at most its fixed number of
  steps, which is the iterate it stopped on, and the last iterate (the one after all
  the steps) when the stopping test never held.
\<close>

theorem iterative_solvers_terminate:
  "(\<exists>m\<le>cap. GetDStoPointCBM cap stop newton seed this xyz
            = Some ((newton this xyz ^^ m) (seed this xyz))
        \<and> (m < cap \<longrightarrow> stop this xyz ((newton this xyz ^^ m) (seed this xyz))))
   \<and> (\<exists>m\<le>cap. GetDStoParticleCBM cap stop_pair newton_pair seed_pair this q
            = Some ((newton_pair this q ^^ m) (seed_pair this q))
        \<and> (m < cap \<longrightarrow> stop_pair this q ((newton_pair this q ^^ m) (seed_pair this q))))
   \<and> (\<exists>m\<le>n. SetNonlinearMassConstraint n converged linear_step Mass this
            = Some ((linear_step Mass ^^ m) this)
        \<and> (m < n \<longrightarrow> converged Mass ((linear_step Mass ^^ m) this)))
   \<and> ((\<forall>i<cap. \<not> stop this xyz ((newton this xyz ^^ i) (seed this xyz))) \<longrightarrow>
         GetDStoPointCBM cap stop newton seed this xyz
            = Some ((newton this xyz ^^ cap) (seed this xyz)))
   \<and> ((\<forall>i<cap. \<not> stop_pair this q ((newton_pair this q ^^ i) (seed_pair this q))) \<longrightarrow>
         GetDStoParticleCBM cap stop_pair newton_pair seed_pair this q
            = Some ((newton_pair this q ^^ cap) (seed_pair this q)))
   \<and> ((\<forall>i<n. \<not> converged Mass ((linear_step Mass ^^ i) this)) \<longrightarrow>
         SetNonlinearMassConstraint n converged linear_step Mass this
            = Some ((linear_step Mass ^^ n) this))"
proof -
  have 1: "\<exists>m\<le>cap. GetDStoPointCBM cap stop newton seed this xyz
            = Some ((newton this xyz ^^ m) (seed this xyz))
        \<and> (m < cap \<longrightarrow> stop this xyz ((newton this xyz ^^ m) (seed this xyz)))"
    unfolding GetDStoPointCBM_def
    using capped_iteration_from_0 [of cap "stop this xyz" "newton this xyz" "seed this xyz"]
    by blast
  have 2: "\<exists>m\<le>cap. GetDStoParticleCBM cap stop_pair newton_pair seed_pair this q
            = Some ((newton_pair this q ^^ m) (seed_pair this q))
        \<and> (m < cap \<longrightarrow> stop_pair this q ((newton_pair this q ^^ m) (seed_pair this q)))"
    unfolding GetDStoParticleCBM_def
    using capped_iteration_from_0 [of cap "stop_pair this q" "newton_pair this q" "seed_pair this q"]
    by blast
  have 3: "\<exists>m\<le>n. SetNonlinearMassConstraint n converged linear_step Mass this
            = Some ((linear_step Mass ^^ m) this)
        \<and> (m < n \<longrightarrow> converged Mass ((linear_step Mass ^^ m) this))"
    unfolding SetNonlinearMassConstraint_def
    using capped_iteration_from_0 [of n "converged Mass" "linear_step Mass" this]
    by blast
  have 4: "GetDStoPointCBM cap stop newton seed this xyz
            = Some ((newton this xyz ^^ cap) (seed this xyz))"
    if "\<forall>i<cap. \<not> stop this xyz ((newton this xyz ^^ i) (seed this xyz))"
    unfolding GetDStoPointCBM_def using that by (rule capped_iteration_exhausted)
  have 5: "GetDStoParticleCBM cap stop_pair newton_pair seed_pair this q
            = Some ((newton_pair this q ^^ cap) (seed_pair this q))"
    if "\<forall>i<cap. \<not> stop_pair this q ((newton_pair this q ^^ i) (seed_pair this q))"
    unfolding GetDStoParticleCBM_def using that by (rule capped_iteration_exhausted)
  have 6: "SetNonlinearMassConstraint n converged linear_step Mass this
            = Some ((linear_step Mass ^^ n) this)"
    if "\<forall>i<n. \<not> converged Mass ((linear_step Mass ^^ i) this)"
    unfolding SetNonlinearMassConstraint_def using that by (rule capped_iteration_exhausted)
  from 1 2 3 4 5 6 show ?thesis by blast
qed

text \<open>
  Halving from 40 with a cap of 3 steps ends on 5 without having converged; with a cap
  of 100 it converges to 0. Two linear steps of the mass constraint are both run.
\<close>

theorem iterative_solvers_terminate_witness:
  "\<not> sample_stop sample [0, 0, 0] 40
   \<and> \<not> sample_stop sample [0, 0, 0] 20
   \<and> \<not> sample_stop sample [0, 0, 0] 10
   \<and> (sample_newton sample [0, 0, 0] ^^ 0) (sample_seed sample [0, 0, 0]) = 40
   \<and> (sample_newton sample [0, 0, 0] ^^ 1) (sample_seed sample [0, 0, 0]) = 20
   \<and> (sample_newton sample [0, 0, 0] ^^ 2) (sample_seed sample [0, 0, 0]) = 10
   \<and> \<not> sample_stop2 sample sample (40, 0)
   \<and> \<not> sample_stop2 sample sample (20, 1)
   \<and> \<not> sample_stop2 sample sample (10, 2)
   \<and> (sample_newton2 sample sample ^^ 0) (sample_seed2 sample sample) = (40, 0)
   \<and> (sample_newton2 sample sample ^^ 1) (sample_seed2 sample sample) = (20, 1)
   \<and> (sample_newton2 sample sample ^^ 2) (sample_seed2 sample sample) = (10, 2)
   \<and> \<not> sample_converged 0 sample
   \<and> \<not> sample_converged 0 (sample_linear_step 0 sample)
   \<and> GetDStoPointCBM 3 sample_stop sample_newton sample_seed sample [0, 0, 0] = Some 5
   \<and> GetDStoParticleCBM 3 sample_stop2 sample_newton2 sample_seed2 sample sample = Some (5, 3)
   \<and> SetNonlinearMassConstraint 2 sample_converged sample_linear_step 0 sample
        = Some (sample\<lparr>fChi2 := 2, fNDF := 4\<rparr>)
   \<and> GetDStoPointCBM 100 sample_stop sample_newton sample_seed sample [0, 0, 0] = Some 0"
proof -
  have a: "\<forall>i<3. \<not> sample_stop sample [0, 0, 0]
        ((sample_newton sample [0, 0, 0] ^^ i) (sample_seed sample [0, 0, 0]))"
    by (auto simp: eval_nat_numeral less_Suc_eq sample_stop_def sample_newton_def sample_seed_def)
  have b: "\<forall>i<3. \<not> sample_stop2 sample sample
        ((sample_newton2 sample sample ^^ i) (sample_seed2 sample sample))"
    by (auto simp: eval_nat_numeral less_Suc_eq sample_stop2_def sample_newton2_def sample_seed2_def)
  have c: "(sample_newton sample [0, 0, 0] ^^ 3) (sample_seed sample [0, 0, 0]) = 5"
    by (simp add: eval_nat_numeral sample_newton_def sample_seed_def)
  have d: "(sample_newton2 sample sample ^^ 3) (sample_seed2 sample sample) = (5, 3)"
    by (simp add: eval_nat_numeral sample_newton2_def sample_seed2_def)
  have e: "(sample_linear_step 0 ^^ 2) sample = sample\<lparr>fChi2 := 2, fNDF := 4\<rparr>"
    by (simp add: eval_nat_numeral sample_linear_step_def sample_def)
  have k: "\<forall>i<2. \<not> sample_converged 0 ((sample_linear_step 0 ^^ i) sample)"
    by (auto simp: eval_nat_numeral less_Suc_eq sample_converged_def sample_linear_step_def
        sample_def)
  have l: "\<not> sample_converged 0 sample" "\<not> sample_converged 0 (sample_linear_step 0 sample)"
    by (simp_all add: sample_converged_def sample_linear_step_def sample_def)
  have f: "GetDStoPointCBM 100 sample_stop sample_newton sample_seed sample [0, 0, 0] = Some 0"
    by (simp add: GetDStoPointCBM_def capped_iteration.simps
        sample_stop_def sample_newton_def sample_seed_def)
  from iterative_solvers_terminate [where cap = 3 and stop = sample_stop and newton = sample_newton
      and seed = sample_seed and this = sample and xyz = "[0, 0, 0]" and stop_pair = sample_stop2
      and newton_pair = sample_newton2 and seed_pair = sample_seed2 and q = sample and n = 2
      and converged = sample_converged and linear_step = sample_linear_step and Mass = 0]
  have g: "GetDStoPointCBM 3 sample_stop sample_newton sample_seed sample [0, 0, 0] = Some 5"
    "GetDStoParticleCBM 3 sample_stop2 sample_newton2 sample_seed2 sample sample = Some (5, 3)"
    "SetNonlinearMassConstraint 2 sample_converged sample_linear_step 0 sample
       = Some (sample\<lparr>fChi2 := 2, fNDF := 4\<rparr>)"
    using a b k by (simp_all add: c d e)
  have i: "(sample_newton sample [0, 0, 0] ^^ 0) (sample_seed sample [0, 0, 0]) = 40"
    "(sample_newton sample [0, 0, 0] ^^ 1) (sample_seed sample [0, 0, 0]) = 20"
    "(sample_newton sample [0, 0, 0] ^^ 2) (sample_seed sample [0, 0, 0]) = 10"
    "(sample_newton2 sample sample ^^ 0) (sample_seed2 sample sample) = (40, 0)"
    "(sample_newton2 sample sample ^^ 1) (sample_seed2 sample sample) = (20, 1)"
    "(sample_newton2 sample sample ^^ 2) (sample_seed2 sample sample) = (10, 2)"
    by (simp_all add: eval_nat_numeral sample_newton_def sample_seed_def
        sample_newton2_def sample_seed2_def)
  have j: "\<not> sample_stop sample [0, 0, 0] 40" "\<not> sample_stop sample [0, 0, 0] 20"
    "\<not> sample_stop sample [0, 0, 0] 10" "\<not> sample_stop2 sample sample (40, 0)"
    "\<not> sample_stop2 sample sample (20, 1)" "\<not> sample_stop2 sample sample (10, 2)"
    by (simp_all add: sample_stop_def sample_stop2_def)
  from f g i j l show ?thesis by simp
qed

end
